theory Spec2Isabelle
  imports Main "HOL-Library.List_Lexorder" "HOL-Library.Char_ord" "HOL-Library.AList"
    "HOL-Library.Multiset"
begin

section \<open>Python values and exceptions used by the script\<close>

text \<open>
  The script \<^verbatim>\<open>scripts/exgdas_global_marine_analysis_prep.py\<close> is a linear
  sequence of environment lookups, calls into the external package \<^verbatim>\<open>ufsda\<close>,
  shell invocations and document generation.  Every exception the script's own
  statements can raise is a value of \<open>py_error\<close>; an exception coming out of an
  external call is \<open>ExternalError\<close>.
\<close>

datatype py_error =
    TypeError
  | AttributeError
  | KeyError
  | ValueError
  | OverflowError
  | UnicodeDecodeError
  | ExternalError string

section \<open>Path functions of \<^verbatim>\<open>os.path\<close> (POSIX)\<close>

text \<open>\<^verbatim>\<open>os.path.basename(p)\<close>: everything after the last slash.\<close>

definition basename :: "string \<Rightarrow> string" where
  "basename p = rev (takeWhile (\<lambda>c. c \<noteq> CHR ''/'') (rev p))"

text \<open>
  \<^verbatim>\<open>os.path.splitext(p)\<close>: the extension starts at the last dot of the last
  path component, unless that component has only dots before it.
\<close>

definition splitext :: "string \<Rightarrow> string \<times> string" where
  "splitext p =
     (let tail = basename p;
          head = take (length p - length tail) p
      in if CHR ''.'' \<in> set tail then
           (let e = rev (takeWhile (\<lambda>c. c \<noteq> CHR ''.'') (rev tail));
                r = take (length tail - length e - 1) tail
            in if (\<forall>c \<in> set r. c = CHR ''.'') then (p, [])
               else (head @ r, CHR ''.'' # e))
         else (p, []))"

text \<open>
  \<^verbatim>\<open>os.path.join(a, *p)\<close>: an absolute component discards what came before,
  otherwise components are joined with one slash.
\<close>

fun join_step :: "string \<Rightarrow> string \<Rightarrow> string" where
  "join_step path b =
     (if b \<noteq> [] \<and> hd b = CHR ''/'' then b
      else if path = [] \<or> last path = CHR ''/'' then path @ b
      else path @ ''/'' @ b)"

definition os_path_join :: "string \<Rightarrow> string list \<Rightarrow> string" where
  "os_path_join a ps = foldl join_step a ps"

section \<open>\<^verbatim>\<open>datetime\<close> and \<^verbatim>\<open>timedelta\<close>\<close>

text \<open>
  A \<^verbatim>\<open>datetime\<close> is the number of microseconds since 0001-01-01T00:00:00, the
  smallest value Python represents; the largest is 9999-12-31T23:59:59.999999.
  A \<^verbatim>\<open>timedelta\<close> is a number of microseconds.  Addition raises
  \<^verbatim>\<open>OverflowError\<close> when the result leaves the range, as
  \<^verbatim>\<open>datetime.__add__\<close> does.
\<close>

datatype datetime = Datetime (micros: int)

datatype timedelta = Timedelta int

definition MAXORDINAL :: int where
  "MAXORDINAL = 3652059"

definition us_per_day :: int where
  "us_per_day = 86400000000"

definition datetime_ok :: "datetime \<Rightarrow> bool" where
  "datetime_ok d = (0 \<le> micros d \<and> micros d < MAXORDINAL * us_per_day)"

definition hours :: "int \<Rightarrow> timedelta" where
  "hours n = Timedelta (n * 3600000000)"

fun dt_add :: "datetime \<Rightarrow> timedelta \<Rightarrow> py_error + datetime" where
  "dt_add (Datetime t) (Timedelta d) =
     (if 0 \<le> t + d \<and> t + d < MAXORDINAL * us_per_day then Inr (Datetime (t + d))
      else Inl OverflowError)"

text \<open>The proleptic Gregorian calendar, as \<^verbatim>\<open>_ymd2ord\<close> and \<^verbatim>\<open>_ord2ymd\<close> compute it.\<close>

definition is_leap :: "int \<Rightarrow> bool" where
  "is_leap y = (y mod 4 = 0 \<and> (y mod 100 \<noteq> 0 \<or> y mod 400 = 0))"

definition days_before_year :: "int \<Rightarrow> int" where
  "days_before_year year =
     (let y = year - 1 in y * 365 + y div 4 - y div 100 + y div 400)"

definition DAYS_IN_MONTH :: "int list" where
  "DAYS_IN_MONTH = [-1, 31, 28, 31, 30, 31, 30, 31, 31, 30, 31, 30, 31]"

definition DAYS_BEFORE_MONTH :: "int list" where
  "DAYS_BEFORE_MONTH = [-1, 0, 31, 59, 90, 120, 151, 181, 212, 243, 273, 304, 334]"

definition days_before_month :: "int \<Rightarrow> nat \<Rightarrow> int" where
  "days_before_month year month =
     DAYS_BEFORE_MONTH ! month + (if month > 2 \<and> is_leap year then 1 else 0)"

definition ymd2ord :: "int \<Rightarrow> nat \<Rightarrow> int \<Rightarrow> int" where
  "ymd2ord year month day = days_before_year year + days_before_month year month + day"

text \<open>\<^verbatim>\<open>datetime(year, month, day, hour, minute, second)\<close> for fields in range.\<close>

definition datetime_ymdhms :: "int \<Rightarrow> nat \<Rightarrow> int \<Rightarrow> int \<Rightarrow> int \<Rightarrow> int \<Rightarrow> datetime" where
  "datetime_ymdhms y m d hh mm ss =
     Datetime (((ymd2ord y m d - 1) * 86400 + hh * 3600 + mm * 60 + ss) * 1000000)"

definition ord2ymd :: "int \<Rightarrow> int \<times> nat \<times> int" where
  "ord2ymd ordinal =
     (let n = ordinal - 1;
          n400 = n div 146097; n = n mod 146097;
          year = n400 * 400 + 1;
          n100 = n div 36524; n = n mod 36524;
          n4 = n div 1461; n = n mod 1461;
          n1 = n div 365; n = n mod 365;
          year = year + n100 * 100 + n4 * 4 + n1
      in if n1 = 4 \<or> n100 = 4 then (year - 1, 12, 31)
         else
           (let leapyear = (n1 = 3 \<and> (n4 \<noteq> 24 \<or> n100 = 3));
                month = nat ((n + 50) div 32);
                preceding = DAYS_BEFORE_MONTH ! month + (if month > 2 \<and> leapyear then 1 else 0)
            in if preceding > n then
                 (let month' = month - 1;
                      preceding' = preceding
                        - (DAYS_IN_MONTH ! month' + (if month' = 2 \<and> leapyear then 1 else 0))
                  in (year, month', n - preceding' + 1))
               else (year, month, n - preceding + 1)))"

definition digit :: "int \<Rightarrow> char" where
  "digit n = ''0123456789'' ! nat (n mod 10)"

definition pad2 :: "int \<Rightarrow> string" where
  "pad2 n = [digit (n div 10), digit n]"

definition pad4 :: "int \<Rightarrow> string" where
  "pad4 n = [digit (n div 1000), digit (n div 100), digit (n div 10), digit n]"

text \<open>The fields year, month, day, hour, minute, second of a \<^verbatim>\<open>datetime\<close>.\<close>

definition dt_fields :: "datetime \<Rightarrow> int \<times> int \<times> int \<times> int \<times> int \<times> int" where
  "dt_fields d =
     (let t = micros d;
          ordinal = t div us_per_day + 1;
          secs = (t mod us_per_day) div 1000000;
          (y, m, dd) = ord2ymd ordinal
      in (y, int m, dd, secs div 3600, secs mod 3600 div 60, secs mod 60))"

text \<open>
  \<^verbatim>\<open>d.strftime('%Y-%m-%dT%H:%M:%SZ')\<close>, with the year written on four digits
  (the documented form of \<^verbatim>\<open>%Y\<close>).
\<close>

definition strftime_iso :: "datetime \<Rightarrow> string" where
  "strftime_iso d =
     (case dt_fields d of (y, m, dd, hh, mm, ss) \<Rightarrow>
        pad4 y @ ''-'' @ pad2 m @ ''-'' @ pad2 dd @ ''T''
        @ pad2 hh @ '':'' @ pad2 mm @ '':'' @ pad2 ss @ ''Z'')"

text \<open>\<^verbatim>\<open>d.strftime('%Y-%m-%d-%H-%M-%S')\<close>.\<close>

definition strftime_dash :: "datetime \<Rightarrow> string" where
  "strftime_dash d =
     (case dt_fields d of (y, m, dd, hh, mm, ss) \<Rightarrow>
        pad4 y @ ''-'' @ pad2 m @ ''-'' @ pad2 dd @ ''-''
        @ pad2 hh @ ''-'' @ pad2 mm @ ''-'' @ pad2 ss)"

text \<open>
  \<^verbatim>\<open>[int(s) for s in d.strftime('%Y,%m,%d,%H,%M,%S').split(',')]\<close>: the six
  fields as integers.
\<close>

definition ymdhms_of :: "datetime \<Rightarrow> int list" where
  "ymdhms_of d = (case dt_fields d of (y, m, dd, hh, mm, ss) \<Rightarrow> [y, m, dd, hh, mm, ss])"

text \<open>
  \<^verbatim>\<open>timedelta(hours=n/2)\<close> for an integer \<open>n\<close>: half hours are exact, and a
  magnitude of a thousand million days or more raises \<^verbatim>\<open>OverflowError\<close>.
\<close>

definition timedelta_half_hours :: "int \<Rightarrow> py_error + timedelta" where
  "timedelta_half_hours n =
     (let us = n * 1800000000
      in if - 999999999 * us_per_day \<le> us \<and> us < 1000000000 * us_per_day
         then Inr (Timedelta us) else Inl OverflowError)"

fun dt_sub :: "datetime \<Rightarrow> timedelta \<Rightarrow> py_error + datetime" where
  "dt_sub d (Timedelta n) = dt_add d (Timedelta (- n))"

text \<open>\<^verbatim>\<open>s.split(',')\<close>.\<close>

fun split_comma :: "string \<Rightarrow> string list" where
  "split_comma [] = [[]]"
| "split_comma (c # cs) =
     (if c = CHR '','' then [] # split_comma cs
      else (case split_comma cs of
              [] \<Rightarrow> [[c]]
            | y # ys \<Rightarrow> (c # y) # ys))"

section \<open>Decoding the captured output of a shell command\<close>

text \<open>
  \<^verbatim>\<open>result.stdout.decode('utf-8')\<close> raises \<^verbatim>\<open>UnicodeDecodeError\<close> on bytes
  that are not well-formed UTF-8.  The decoded text is discarded by the script, so
  only well-formedness is modelled.
\<close>

definition cont :: "nat \<Rightarrow> bool" where
  "cont b = (128 \<le> b \<and> b \<le> 191)"

fun utf8_valid :: "nat list \<Rightarrow> bool" where
  "utf8_valid [] = True"
| "utf8_valid [b] = (b < 128)"
| "utf8_valid [b, c1] = (if b < 128 then utf8_valid [c1] else 194 \<le> b \<and> b \<le> 223 \<and> cont c1)"
| "utf8_valid [b, c1, c2] =
     (if b < 128 then utf8_valid [c1, c2]
      else if 194 \<le> b \<and> b \<le> 223 then cont c1 \<and> utf8_valid [c2]
      else if b = 224 then 160 \<le> c1 \<and> c1 \<le> 191 \<and> cont c2
      else if b = 237 then 128 \<le> c1 \<and> c1 \<le> 159 \<and> cont c2
      else if 225 \<le> b \<and> b \<le> 239 then cont c1 \<and> cont c2
      else False)"
| "utf8_valid (b # c1 # c2 # c3 # bs) =
     (if b < 128 then utf8_valid (c1 # c2 # c3 # bs)
      else if 194 \<le> b \<and> b \<le> 223 then cont c1 \<and> utf8_valid (c2 # c3 # bs)
      else if b = 224 then 160 \<le> c1 \<and> c1 \<le> 191 \<and> cont c2 \<and> utf8_valid (c3 # bs)
      else if b = 237 then 128 \<le> c1 \<and> c1 \<le> 159 \<and> cont c2 \<and> utf8_valid (c3 # bs)
      else if 225 \<le> b \<and> b \<le> 239 then cont c1 \<and> cont c2 \<and> utf8_valid (c3 # bs)
      else if b = 240 then 144 \<le> c1 \<and> c1 \<le> 191 \<and> cont c2 \<and> cont c3 \<and> utf8_valid bs
      else if b = 244 then 128 \<le> c1 \<and> c1 \<le> 143 \<and> cont c2 \<and> cont c3 \<and> utf8_valid bs
      else if 241 \<le> b \<and> b \<le> 243 then cont c1 \<and> cont c2 \<and> cont c3 \<and> utf8_valid bs
      else False)"

definition decode_utf8 :: "nat list \<Rightarrow> py_error + unit" where
  "decode_utf8 bs = (if utf8_valid bs then Inr () else Inl UnicodeDecodeError)"

section \<open>Documents, the process state and the outside world\<close>

text \<open>
  A YAML document as \<^verbatim>\<open>yaml.dump(..., sort_keys=False)\<close> receives it: mappings
  keep the insertion order of the dictionary.
\<close>

datatype yaml =
    YStr string
  | YInt int
  | YSeq "yaml list"
  | YMap "(string \<times> yaml) list"

fun yaml_field :: "string \<Rightarrow> yaml \<Rightarrow> yaml option" where
  "yaml_field k (YMap kvs) = map_of kvs k"
| "yaml_field k _ = None"

text \<open>
  A dictionary with string keys whose values are strings or \<^verbatim>\<open>None\<close>: the
  overlay handed to \<^verbatim>\<open>genYAML\<close>, the staging configuration, the result of
  \<^verbatim>\<open>get_env_config\<close>.
\<close>

type_synonym pydict = "(string \<times> string option) list"

text \<open>The namelist object of \<^verbatim>\<open>f90nml\<close>: groups of named values.\<close>

datatype nmlval = NmlInt int | NmlInts "int list" | NmlStr string

type_synonym namelist = "(string \<times> (string \<times> nmlval) list) list"

text \<open>
  Everything the script does to the world outside the interpreter is recorded, in
  order, in a trace of events.
\<close>

text \<open>
  A formatted log message whose fields are the \<^verbatim>\<open>repr\<close> of a list or of a
  dictionary is kept in parts, the values themselves in place of their text.
\<close>

datatype fpart = Lit string | ReprList "string list" | ReprDict pydict

datatype event =
    LoggingInfo string
  | LoggingInfoF "fpart list"
  | OsSystem string
  | SubprocessRun string
  | YamlDump string yaml
  | Mkdir string
  | R2d2Setup string "string option"
  | StageObs pydict
  | StageBackground pydict
  | StageSocaFix pydict
  | Symlink string string
  | GenYAML pydict string string
  | CopyFile string string
  | RemoveFile string
  | NmlWrite namelist string

record world =
  environ :: "string \<rightharpoonup> string"
  trace :: "event list"

definition emit :: "event \<Rightarrow> world \<Rightarrow> world" where
  "emit e w = w\<lparr>trace := trace w @ [e]\<rparr>"

record completed_process =
  returncode :: int
  stdout :: "nat list"

text \<open>
  The behaviour of everything the script calls but does not contain: the file
  system seen through \<^verbatim>\<open>glob\<close>, the shell, the package \<^verbatim>\<open>ufsda\<close>,
  \<^verbatim>\<open>f90nml\<close>, and the two library parsers \<^verbatim>\<open>int\<close> and
  \<^verbatim>\<open>datetime.strptime\<close>.  Each answer may depend on the state of the process and
  on everything done so far.  A call that returns nothing answers \<open>None\<close> or the
  exception it raises.
\<close>

record ext =
  glob_glob :: "world \<Rightarrow> string \<Rightarrow> string list"
  os_system :: "world \<Rightarrow> string \<Rightarrow> int"
  subprocess_run :: "world \<Rightarrow> string \<Rightarrow> completed_process"
  ext_call :: "world \<Rightarrow> event \<Rightarrow> py_error option"
  get_env_config :: "world \<Rightarrow> string \<Rightarrow> py_error + pydict"
  parse_config :: "world \<Rightarrow> string \<Rightarrow> py_error + pydict"
  f90nml_read :: "world \<Rightarrow> string \<Rightarrow> py_error + namelist"
  py_int :: "string \<Rightarrow> py_error + int"
  strptime :: "string \<Rightarrow> py_error + datetime"

section \<open>\<^verbatim>\<open>gen_bkg_list\<close>\<close>

definition fix_diag_ch_job :: "string \<Rightarrow> string \<Rightarrow> string \<Rightarrow> string" where
  "fix_diag_ch_job att v bkg = ''ncatted -h -a '' @ att @ '','' @ v @ '',o,d,9999.0 '' @ bkg"

definition fix_diag_d_job :: "string \<Rightarrow> string \<Rightarrow> string \<Rightarrow> string" where
  "fix_diag_d_job att v bkg = ''ncatted -h -a '' @ att @ '','' @ v @ '',d,d,1.0 '' @ bkg"

text \<open>
  A statement either returns its value or raises: the exception comes with the
  state of the world at that moment, since nothing done before is undone.
\<close>

type_synonym 'a result = "(py_error \<times> world) + 'a"

text \<open>
  The body shared by the two loops \<^verbatim>\<open>for c in fix_diag_ch_jobs\<close> and
  \<^verbatim>\<open>for c in fix_diag_d_jobs\<close>: log the command, run it with \<^verbatim>\<open>os.system\<close>
  (status dropped), run it again with \<^verbatim>\<open>subprocess.run\<close>, decode its output.
\<close>

fun run_jobs :: "ext \<Rightarrow> string list \<Rightarrow> world \<Rightarrow> world result" where
  "run_jobs x [] w = Inr w"
| "run_jobs x (c # cs) w =
     (let w1 = emit (LoggingInfo c) w;
          status = os_system x w1 c;
          w2 = emit (OsSystem c) w1;
          result = subprocess_run x w2 c;
          w3 = emit (SubprocessRun c) w2
      in case decode_utf8 (stdout result) of
           Inl e \<Rightarrow> Inl (e, w3)
         | Inr u \<Rightarrow> run_jobs x cs w3)"

fun fix_att_loop :: "ext \<Rightarrow> string \<Rightarrow> string list \<Rightarrow> string list \<Rightarrow> world \<Rightarrow> world result" where
  "fix_att_loop x v [] files w = Inr w"
| "fix_att_loop x v (att # atts) files w =
     (let fix_diag_ch_jobs = map (fix_diag_ch_job att v) files;
          fix_diag_d_jobs = map (fix_diag_d_job att v) files
      in case run_jobs x fix_diag_ch_jobs w of
           Inl e \<Rightarrow> Inl e
         | Inr w1 \<Rightarrow>
             (case run_jobs x fix_diag_d_jobs w1 of
                Inl e \<Rightarrow> Inl e
              | Inr w2 \<Rightarrow> fix_att_loop x v atts files w2))"

fun fix_var_loop :: "ext \<Rightarrow> string list \<Rightarrow> string list \<Rightarrow> world \<Rightarrow> world result" where
  "fix_var_loop x [] files w = Inr w"
| "fix_var_loop x (v # vs) files w =
     (case fix_att_loop x v [''_FillValue'', ''missing_value''] files w of
        Inl e \<Rightarrow> Inl e
      | Inr w1 \<Rightarrow> fix_var_loop x vs files w1)"

definition ocn_filename_of :: "string \<Rightarrow> string" where
  "ocn_filename_of bkg = fst (splitext (basename bkg)) @ ''.nc''"

definition bkg_dict :: "string \<Rightarrow> datetime \<Rightarrow> string \<Rightarrow> yaml" where
  "bkg_dict bkg_path bkg_date bkg =
     YMap [(''date'', YStr (strftime_iso bkg_date)),
           (''basename'', YStr (bkg_path @ ''/'')),
           (''ocn_filename'', YStr (ocn_filename_of bkg)),
           (''read_from_file'', YInt 1)]"

fun bkg_loop :: "string \<Rightarrow> string list \<Rightarrow> datetime \<Rightarrow> yaml list \<Rightarrow> py_error + yaml list" where
  "bkg_loop bkg_path [] bkg_date bkg_list = Inr bkg_list"
| "bkg_loop bkg_path (bkg # files) bkg_date bkg_list =
     (case dt_add bkg_date (hours 1) of
        Inl e \<Rightarrow> Inl e
      | Inr bkg_date' \<Rightarrow>
          bkg_loop bkg_path files bkg_date' (bkg_list @ [bkg_dict bkg_path bkg_date bkg]))"

text \<open>
  The argument \<^verbatim>\<open>window_begin\<close> defaults to the string \<^verbatim>\<open>' '\<close> and is a
  \<^verbatim>\<open>datetime\<close> at the script's only call; \<^verbatim>\<open>bkg_path\<close> is the result of
  \<^verbatim>\<open>os.getenv\<close> there, so it may be \<^verbatim>\<open>None\<close>.
\<close>

datatype pyval = PyStr string | PyDatetime datetime

definition gen_bkg_list ::
  "ext \<Rightarrow> pyval \<Rightarrow> string option \<Rightarrow> string \<Rightarrow> string \<Rightarrow> world \<Rightarrow> world result" where
  "gen_bkg_list x window_begin bkg_path file_type yaml_name w =
     (case bkg_path of
        None \<Rightarrow> Inl (TypeError, w)
      | Some bp \<Rightarrow>
          (let files = sort (glob_glob x w (bp @ ''/*'' @ file_type @ ''*''))
           in case fix_var_loop x [''Temp'', ''Salt'', ''ave_ssh'', ''h'', ''MLD''] files w of
                Inl e \<Rightarrow> Inl e
              | Inr w1 \<Rightarrow>
                  (case window_begin of
                     PyStr s \<Rightarrow> Inl (TypeError, w1)
                   | PyDatetime wb \<Rightarrow>
                       (case dt_add wb (hours 1) of
                          Inl e \<Rightarrow> Inl (e, w1)
                        | Inr bkg_date \<Rightarrow>
                            (case bkg_loop bp files bkg_date [] of
                               Inl e \<Rightarrow> Inl (e, w1)
                             | Inr bkg_list \<Rightarrow>
                                 Inr (emit (YamlDump yaml_name
                                        (YMap [(''states'', YSeq bkg_list)])) w1))))))"

section \<open>The body of the script\<close>

definition and_then :: "'a result \<Rightarrow> ('a \<Rightarrow> 'b result) \<Rightarrow> 'b result" where
  "and_then m f = (case m of Inl e \<Rightarrow> Inl e | Inr a \<Rightarrow> f a)"

text \<open>
  A call of a procedure of \<^verbatim>\<open>ufsda\<close> or \<^verbatim>\<open>f90nml\<close>: it is recorded, and it
  returns or raises.
\<close>

definition call :: "ext \<Rightarrow> event \<Rightarrow> world \<Rightarrow> world result" where
  "call x ev w =
     (case ext_call x w ev of
        Some e \<Rightarrow> Inl (e, emit ev w)
      | None \<Rightarrow> Inr (emit ev w))"

text \<open>\<^verbatim>\<open>d[k]\<close> raises \<^verbatim>\<open>KeyError\<close> on a missing key.\<close>

definition getitem :: "pydict \<Rightarrow> string \<Rightarrow> world \<Rightarrow> string option result" where
  "getitem d k w = (case map_of d k of None \<Rightarrow> Inl (KeyError, w) | Some v \<Rightarrow> Inr v)"

text \<open>
  Where a string is required (\<^verbatim>\<open>os.path.join\<close>, \<^verbatim>\<open>+\<close> on strings,
  \<^verbatim>\<open>os.environ[k] = v\<close>, \<^verbatim>\<open>int\<close>, \<^verbatim>\<open>strptime\<close>), \<^verbatim>\<open>None\<close> raises
  \<^verbatim>\<open>TypeError\<close>.
\<close>

definition as_str :: "string option \<Rightarrow> world \<Rightarrow> string result" where
  "as_str v w = (case v of None \<Rightarrow> Inl (TypeError, w) | Some s \<Rightarrow> Inr s)"

definition lift :: "py_error + 'a \<Rightarrow> world \<Rightarrow> 'a result" where
  "lift r w = (case r of Inl e \<Rightarrow> Inl (e, w) | Inr a \<Rightarrow> Inr a)"

definition setenv :: "string \<Rightarrow> string \<Rightarrow> world \<Rightarrow> world" where
  "setenv k v w = w\<lparr>environ := (environ w)(k \<mapsto> v)\<rparr>"

text \<open>\<^verbatim>\<open>os.environ[k] = envconfig[k]\<close>.\<close>

definition setenv_from :: "pydict \<Rightarrow> string \<Rightarrow> world \<Rightarrow> world result" where
  "setenv_from d k w =
     and_then (getitem d k w) (\<lambda>v.
     and_then (as_str v w) (\<lambda>s.
     Inr (setenv k s w)))"

text \<open>Lines 36 to 44: \<^verbatim>\<open>gdas_home\<close>.\<close>

definition module_header :: "world \<Rightarrow> string result" where
  "module_header w =
     and_then (as_str (environ w ''HOMEgfs'') w) (\<lambda>homegfs.
     Inr (os_path_join homegfs [''sorc'', ''gdas.cd'']))"

text \<open>Lines 97 to 112: runtime environment variables, create directories.\<close>

definition setup_runtime ::
  "ext \<Rightarrow> world \<Rightarrow> (string \<times> string option \<times> string option \<times> string \<times> string \<times> world) result" where
  "setup_runtime x w0 =
     (let w = emit (LoggingInfo ''---------------- Setup runtime environement'') w0;
          comout = environ w ''COMOUT'';
          comin_obs = environ w ''COMIN_OBS'';
          staticsoca_dir = environ w ''SOCA_INPUT_FIX_DIR''
      in and_then (as_str comout w) (\<lambda>co.
         let anl_dir = os_path_join co [''analysis'']
         in and_then (call x (Mkdir anl_dir) w) (\<lambda>w.
         let diags = os_path_join co [''analysis'', ''diags'']
         in and_then (call x (Mkdir diags) w) (\<lambda>w.
         and_then (call x (Mkdir (os_path_join co [''analysis'', ''Data''])) w) (\<lambda>w.
         Inr (co, comin_obs, staticsoca_dir, anl_dir, diags, w))))))"

text \<open>Lines 118 to 135: fetch observations.\<close>

definition stage_observations ::
  "ext \<Rightarrow> string \<Rightarrow> string option \<Rightarrow> string \<Rightarrow> world \<Rightarrow> (pydict \<times> world) result" where
  "stage_observations x gdas_home comin_obs diags w0 =
     (let w = emit (LoggingInfo ''---------------- Stage observations'') w0
      in and_then (call x (R2d2Setup ''r2d2_config.yaml'' comin_obs) w) (\<lambda>w.
         and_then (lift (get_env_config x w ''notatm'') w) (\<lambda>envconfig.
         and_then (setenv_from envconfig ''OBS_DATE'' w) (\<lambda>w.
         and_then (setenv_from envconfig ''OBS_DIR'' w) (\<lambda>w.
         and_then (setenv_from envconfig ''OBS_PREFIX'' w) (\<lambda>w.
         let w = setenv ''DIAG_DIR'' diags w
         in and_then (lift (parse_config x w
                        (os_path_join gdas_home [''parm'', ''templates'', ''stage.yaml''])) w)
              (\<lambda>stage_cfg.
         and_then (call x (StageObs stage_cfg) w) (\<lambda>w.
         Inr (stage_cfg, w)))))))))"

text \<open>Lines 139 to 147: stage backgrounds, stage static files.\<close>

definition stage_backgrounds :: "ext \<Rightarrow> pydict \<Rightarrow> world \<Rightarrow> (pydict \<times> world) result" where
  "stage_backgrounds x stage_cfg0 w0 =
     (let w = emit (LoggingInfo ''---------------- Stage backgrounds'') w0;
          stage_cfg = AList.update ''background_dir'' (environ w ''COMIN_GES'') stage_cfg0
      in and_then (call x (StageBackground stage_cfg) w) (\<lambda>w.
         let w = emit (LoggingInfo ''---------------- Stage static files'') w
         in and_then (call x (StageSocaFix stage_cfg) w) (\<lambda>w.
         Inr (stage_cfg, w))))"

text \<open>Lines 151 to 182: the list of DA variables, grid generation, diagonal of B, correlation scales.\<close>

definition prepare_yamls ::
  "ext \<Rightarrow> string \<Rightarrow> string \<Rightarrow> pydict \<Rightarrow> world \<Rightarrow> (string list \<times> world) result" where
  "prepare_yamls x gdas_home anl_dir stage_cfg w0 =
     (let w = emit (LoggingInfo ''---------------- Generate JEDI yaml files'') w0
      in case environ w ''SOCA_VARS'' of
           None \<Rightarrow> Inl (AttributeError, w)
         | Some s \<Rightarrow>
             (let soca_vars = split_comma s;
                  gridgen_yaml = os_path_join gdas_home [''parm'', ''soca'', ''gridgen'', ''gridgen.yaml'']
              in and_then (getitem stage_cfg ''stage_dir'' w) (\<lambda>v.
                 and_then (as_str v w) (\<lambda>stage_dir.
                 and_then (call x (Symlink gridgen_yaml (os_path_join stage_dir [''gridgen.yaml''])) w) (\<lambda>w.
                 let berr_yaml = os_path_join anl_dir [''parametric_stddev_b.yaml''];
                     berr_yaml_template =
                       os_path_join gdas_home [''parm'', ''soca'', ''berror'', ''parametric_stddev_b.yaml''];
                     config = []
                 in and_then (call x (GenYAML config berr_yaml berr_yaml_template) w) (\<lambda>w.
                 let corscales_yaml =
                       os_path_join gdas_home [''parm'', ''soca'', ''berror'', ''soca_setcorscales.yaml'']
                 in and_then (getitem stage_cfg ''stage_dir'' w) (\<lambda>v.
                 and_then (as_str v w) (\<lambda>stage_dir.
                 and_then (call x (Symlink corscales_yaml
                             (os_path_join stage_dir [''soca_setcorscales.yaml''])) w) (\<lambda>w.
                 Inr (soca_vars, w))))))))))"

text \<open>Lines 186 to 208: generate yaml for bump C.\<close>

definition vars3d :: "string list" where
  "vars3d = [''tocn'', ''socn'', ''uocn'', ''vocn'', ''chl'', ''biop'']"

definition vars2d :: "string list" where
  "vars2d = [''ssh'', ''cicen'', ''hicen'', ''hsnon'', ''swh'',
             ''sw'', ''lw'', ''lw_rad'', ''lhf'', ''shf'', ''us'']"

fun bumpC_loop :: "ext \<Rightarrow> string \<Rightarrow> string \<Rightarrow> string list \<Rightarrow> world \<Rightarrow> world result" where
  "bumpC_loop x anl_dir gdas_home [] w = Inr w"
| "bumpC_loop x anl_dir gdas_home (v # vs) w =
     (let dim = (if v \<in> set vars2d then ''2d'' else ''3d'');
          bumpC_yaml = os_path_join anl_dir [''soca_bump'' @ dim @ ''_C_'' @ v @ ''.yaml''];
          bumpC_yaml_template =
            os_path_join gdas_home [''parm'', ''soca'', ''berror'', ''soca_bump_C_split.yaml''];
          bumpdir = ''bump'' @ dim @ ''_'' @ v
      in case call x (Mkdir (os_path_join anl_dir [bumpdir])) w of
           Inl e \<Rightarrow> Inl e
         | Inr w1 \<Rightarrow>
             (let config = [(''datadir'', Some bumpdir)];
                  w2 = setenv ''CVAR'' v w1
              in case call x (GenYAML config bumpC_yaml bumpC_yaml_template) w2 of
                   Inl e \<Rightarrow> Inl e
                 | Inr w3 \<Rightarrow> bumpC_loop x anl_dir gdas_home vs w3))"

definition generate_bumpC ::
  "ext \<Rightarrow> string list \<Rightarrow> string \<Rightarrow> string \<Rightarrow> world \<Rightarrow> world result" where
  "generate_bumpC x soca_vars anl_dir gdas_home w0 =
     (let vars = [''ssh'', ''tocn'', ''socn''];
          w = emit (LoggingInfoF [Lit ''over-writting '', ReprList soca_vars,
                                  Lit '' with '', ReprList vars]) w0
      in bumpC_loop x anl_dir gdas_home vars w)"

text \<open>Lines 211 to 228: the window, the list of backgrounds, the variational yaml.\<close>

definition generate_var ::
  "ext \<Rightarrow> string \<Rightarrow> string \<Rightarrow> world \<Rightarrow> (datetime \<times> world) result" where
  "generate_var x gdas_home anl_dir w =
     (let var_yaml = os_path_join anl_dir [''var.yaml''];
          var_yaml_template =
            os_path_join gdas_home [''parm'', ''soca'', ''variational'', ''3dvarfgat.yaml'']
      in and_then (as_str (environ w ''assim_freq'') w) (\<lambda>s.
         and_then (lift (py_int x s) w) (\<lambda>n.
         and_then (lift (timedelta_half_hours n) w) (\<lambda>half_assim_freq.
         and_then (as_str (environ w ''CDATE'') w) (\<lambda>s.
         and_then (lift (strptime x s) w) (\<lambda>d.
         and_then (lift (dt_sub d half_assim_freq) w) (\<lambda>window_begin.
         and_then (gen_bkg_list x (PyDatetime window_begin) (environ w ''COMIN_GES'')
                     ''gdas.t*.ocnf00[4-9]'' ''bkg_list.yaml'' w) (\<lambda>w.
         let soca_ninner = environ w ''SOCA_NINNER''
         in and_then (as_str (environ w ''PDY'') w) (\<lambda>pdy.
         and_then (as_str (environ w ''cyc'') w) (\<lambda>cyc.
         let config =
               [(''OBS_DATE'', Some (pdy @ cyc)),
                (''BKG_LIST'', Some ''bkg_list.yaml''),
                (''COVARIANCE_MODEL'', Some ''SABER''),
                (''NINNER'', soca_ninner),
                (''SABER_BLOCKS_YAML'',
                   Some (os_path_join gdas_home [''parm'', ''soca'', ''berror'', ''saber_blocks.yaml'']))];
             w = emit (LoggingInfoF [ReprDict config]) w
         in and_then (call x (GenYAML config var_yaml var_yaml_template) w) (\<lambda>w.
         Inr (window_begin, w))))))))))))"

text \<open>Lines 242 to 244: the link to the restart at the beginning of the window.\<close>

definition link_restart ::
  "ext \<Rightarrow> string \<Rightarrow> pydict \<Rightarrow> datetime \<Rightarrow> world \<Rightarrow> world result" where
  "link_restart x comout stage_cfg window_begin w =
     (let bkg_rst = ''MOM.res.'' @ strftime_dash window_begin @ ''.nc''
      in and_then (getitem stage_cfg ''background_dir'' w) (\<lambda>v.
         and_then (as_str v w) (\<lambda>background_dir.
         call x (Symlink (os_path_join background_dir [''RESTART'', bkg_rst])
                         (os_path_join comout [''analysis'', ''INPUT'', ''MOM.res.nc''])) w)))"

text \<open>Lines 251 to 263: prepare \<^verbatim>\<open>input.nml\<close>.\<close>

definition nml_set :: "namelist \<Rightarrow> string \<Rightarrow> string \<Rightarrow> nmlval \<Rightarrow> world \<Rightarrow> namelist result" where
  "nml_set nml grp k v w =
     (case map_of nml grp of
        None \<Rightarrow> Inl (KeyError, w)
      | Some kvs \<Rightarrow> Inr (AList.update grp (AList.update k v kvs) nml))"

definition prepare_input_nml ::
  "ext \<Rightarrow> string \<Rightarrow> pydict \<Rightarrow> datetime \<Rightarrow> world \<Rightarrow> world result" where
  "prepare_input_nml x gdas_home stage_cfg window_begin w =
     (let mom_input_nml_src = os_path_join gdas_home [''parm'', ''soca'', ''fms'', ''input.nml'']
      in and_then (getitem stage_cfg ''stage_dir'' w) (\<lambda>v.
         and_then (as_str v w) (\<lambda>stage_dir.
         let mom_input_nml_tmpl = os_path_join stage_dir [''mom_input.nml.tmpl'']
         in and_then (getitem stage_cfg ''stage_dir'' w) (\<lambda>v.
         and_then (as_str v w) (\<lambda>stage_dir.
         let mom_input_nml = os_path_join stage_dir [''mom_input.nml'']
         in and_then (call x (CopyFile mom_input_nml_src mom_input_nml_tmpl) w) (\<lambda>w.
         let domain_stack_size = environ w ''DOMAIN_STACK_SIZE'';
             ymdhms = ymdhms_of window_begin
         in and_then (lift (f90nml_read x w mom_input_nml_tmpl) w) (\<lambda>nml.
         and_then (nml_set nml ''ocean_solo_nml'' ''date_init'' (NmlInts ymdhms) w) (\<lambda>nml.
         and_then (as_str domain_stack_size w) (\<lambda>s.
         and_then (lift (py_int x s) w) (\<lambda>n.
         and_then (nml_set nml ''fms_nml'' ''domains_stack_size'' (NmlInt n) w) (\<lambda>nml.
         and_then (call x (RemoveFile mom_input_nml) w) (\<lambda>w.
         call x (NmlWrite nml mom_input_nml) w))))))))))))"

text \<open>The script, top to bottom.\<close>

definition script :: "ext \<Rightarrow> world \<Rightarrow> world result" where
  "script x w =
     and_then (module_header w) (\<lambda>gdas_home.
     and_then (setup_runtime x w) (\<lambda>(comout, comin_obs, staticsoca_dir, anl_dir, diags, w).
     and_then (stage_observations x gdas_home comin_obs diags w) (\<lambda>(stage_cfg, w).
     and_then (stage_backgrounds x stage_cfg w) (\<lambda>(stage_cfg, w).
     and_then (prepare_yamls x gdas_home anl_dir stage_cfg w) (\<lambda>(soca_vars, w).
     and_then (generate_bumpC x soca_vars anl_dir gdas_home w) (\<lambda>w.
     and_then (generate_var x gdas_home anl_dir w) (\<lambda>(window_begin, w).
     and_then (link_restart x comout stage_cfg window_begin w) (\<lambda>w.
     prepare_input_nml x gdas_home stage_cfg window_begin w))))))))"

section \<open>Descriptions used in the statements\<close>

text \<open>The world after some more events.\<close>

definition add_trace :: "event list \<Rightarrow> world \<Rightarrow> world" where
  "add_trace es w = w\<lparr>trace := trace w @ es\<rparr>"

text \<open>Every command run through \<^verbatim>\<open>subprocess.run\<close> prints well-formed UTF-8.\<close>

definition stdout_decodes :: "ext \<Rightarrow> bool" where
  "stdout_decodes x = (\<forall>w c. utf8_valid (stdout (subprocess_run x w c)))"

text \<open>What running a list of commands leaves in the trace: each one logged, then run twice.\<close>

definition job_events :: "string list \<Rightarrow> event list" where
  "job_events cs = concat (map (\<lambda>c. [LoggingInfo c, OsSystem c, SubprocessRun c]) cs)"

text \<open>For one variable and one attribute: all the overwrite commands, then all the delete commands.\<close>

definition att_events :: "string \<Rightarrow> string list \<Rightarrow> string \<Rightarrow> event list" where
  "att_events v files att =
     job_events (map (fix_diag_ch_job att v) files) @ job_events (map (fix_diag_d_job att v) files)"

text \<open>The whole metadata repair, over the fixed variables and the two attributes.\<close>

definition repair_events :: "string list \<Rightarrow> event list" where
  "repair_events files =
     concat (map (\<lambda>v. concat (map (att_events v files) [''_FillValue'', ''missing_value'']))
       [''Temp'', ''Salt'', ''ave_ssh'', ''h'', ''MLD''])"

text \<open>The files \<^verbatim>\<open>glob.glob(bkg_path+'/*'+file_type+'*')\<close> finds, in the order it gives them.\<close>

definition matched :: "ext \<Rightarrow> world \<Rightarrow> string \<Rightarrow> string \<Rightarrow> string list" where
  "matched x w bkg_path file_type = glob_glob x w (bkg_path @ ''/*'' @ file_type @ ''*'')"

text \<open>The instant \<open>k\<close> hours after \<open>d\<close>, as a number (no range check).\<close>

definition plus_hours :: "datetime \<Rightarrow> nat \<Rightarrow> datetime" where
  "plus_hours d k = Datetime (micros d + int k * 3600000000)"

text \<open>The records of the manifest: the \<open>i\<close>-th file gets the date \<open>d\<close> plus \<open>i\<close> hours.\<close>

definition bkg_records :: "string \<Rightarrow> datetime \<Rightarrow> string list \<Rightarrow> yaml list" where
  "bkg_records bkg_path d files =
     map (\<lambda>i. bkg_dict bkg_path (plus_hours d i) (files ! i)) [0..<length files]"

text \<open>The manifest document for a window start and a sorted list of files.\<close>

definition manifest :: "string \<Rightarrow> datetime \<Rightarrow> string list \<Rightarrow> yaml" where
  "manifest bkg_path window_begin files =
     YMap [(''states'', YSeq (bkg_records bkg_path (plus_hours window_begin 1) files))]"



text \<open>
  In a list of events, every run through \<^verbatim>\<open>os.system\<close> is followed at once by a
  run of the same command through \<^verbatim>\<open>subprocess.run\<close>, and there is no other
  run through \<^verbatim>\<open>subprocess.run\<close>.
\<close>

fun run_twice :: "event list \<Rightarrow> bool" where
  "run_twice [] = True"
| "run_twice (e # es) =
     (case e of
        OsSystem c \<Rightarrow>
          (case es of
             SubprocessRun c' # es' \<Rightarrow> c = c' \<and> run_twice es'
           | _ \<Rightarrow> False)
      | SubprocessRun c \<Rightarrow> False
      | _ \<Rightarrow> run_twice es)"



text \<open>The documents generated for bump C: the calls of \<^verbatim>\<open>genYAML\<close> on its template.\<close>

fun is_bumpC :: "event \<Rightarrow> bool" where
  "is_bumpC (GenYAML config out template) = (basename template = ''soca_bump_C_split.yaml'')"
| "is_bumpC e = False"

definition bumpC_docs_of :: "world \<Rightarrow> event list" where
  "bumpC_docs_of w = filter is_bumpC (trace w)"

text \<open>
  The environment variables the script assigns itself; every other one keeps the
  value the process started with.
\<close>

definition script_sets :: "string set" where
  "script_sets = {''OBS_DATE'', ''OBS_DIR'', ''OBS_PREFIX'', ''DIAG_DIR'', ''CVAR''}"

definition kept_env :: "world \<Rightarrow> string \<rightharpoonup> string" where
  "kept_env w = (\<lambda>k. if k \<in> script_sets then None else environ w k)"

text \<open>The two events of one round of the bump C loop, for a variable and its tag.\<close>

definition bumpC_round :: "string \<Rightarrow> string \<Rightarrow> string \<Rightarrow> string \<Rightarrow> event list" where
  "bumpC_round anl_dir gdas_home dim v =
     [Mkdir (os_path_join anl_dir [''bump'' @ dim @ ''_'' @ v]),
      GenYAML [(''datadir'', Some (''bump'' @ dim @ ''_'' @ v))]
        (os_path_join anl_dir [''soca_bump'' @ dim @ ''_C_'' @ v @ ''.yaml''])
        (os_path_join gdas_home [''parm'', ''soca'', ''berror'', ''soca_bump_C_split.yaml''])]"

text \<open>
  The classification as the specification words it: the names of the fixed 2-D
  list are tagged \<^verbatim>\<open>2d\<close>, every other name \<^verbatim>\<open>3d\<close>.
\<close>

definition fixed_2d_list :: "string list" where
  "fixed_2d_list = [''ssh'', ''cicen'', ''hicen'', ''hsnon'', ''swh'', ''sw'', ''lw'', ''lw_rad'',
                    ''lhf'', ''shf'', ''us'']"

definition tag_of :: "string \<Rightarrow> string" where
  "tag_of v = (if v \<in> set fixed_2d_list then ''2d'' else ''3d'')"

text \<open>
  The environment variables whose absence makes a statement of the script itself
  raise.
\<close>

definition needed_vars :: "string list" where
  "needed_vars = [''HOMEgfs'', ''COMOUT'', ''COMIN_GES'', ''CDATE'', ''PDY'', ''cyc'',
                  ''assim_freq'', ''SOCA_VARS'', ''DOMAIN_STACK_SIZE'']"

text \<open>The three documents the script generates for bump C.\<close>

definition bumpC_docs :: "string \<Rightarrow> string \<Rightarrow> event list" where
  "bumpC_docs comout homegfs =
     (let anl_dir = os_path_join comout [''analysis''];
          template = os_path_join (os_path_join homegfs [''sorc'', ''gdas.cd''])
                       [''parm'', ''soca'', ''berror'', ''soca_bump_C_split.yaml'']
      in [GenYAML [(''datadir'', Some ''bump2d_ssh'')]
            (os_path_join anl_dir [''soca_bump2d_C_ssh.yaml'']) template,
          GenYAML [(''datadir'', Some ''bump3d_tocn'')]
            (os_path_join anl_dir [''soca_bump3d_C_tocn.yaml'']) template,
          GenYAML [(''datadir'', Some ''bump3d_socn'')]
            (os_path_join anl_dir [''soca_bump3d_C_socn.yaml'']) template])"

text \<open>
  A sample outside world for instantiating the theorems: \<^verbatim>\<open>glob\<close> answers the
  given files for the given pattern, every command and every external call
  succeeds silently, and the two parsers know the strings of the sample
  environment.
\<close>

definition quiet_ext :: "string \<Rightarrow> string list \<Rightarrow> ext" where
  "quiet_ext pattern files =
     \<lparr>glob_glob = (\<lambda>w p. if p = pattern then files else []),
      os_system = (\<lambda>w c. 0),
      subprocess_run = (\<lambda>w c. \<lparr>returncode = 0, stdout = []\<rparr>),
      ext_call = (\<lambda>w e. None),
      get_env_config = (\<lambda>w c. Inr [(''OBS_DATE'', Some ''2022032803''),
                                     (''OBS_DIR'', Some ''/obs''),
                                     (''OBS_PREFIX'', Some ''gdas'')]),
      parse_config = (\<lambda>w p. Inr [(''stage_dir'', Some ''/stage'')]),
      f90nml_read = (\<lambda>w p. Inr [(''ocean_solo_nml'', []), (''fms_nml'', [])]),
      py_int = (\<lambda>s. if s = ''6'' then Inr 6
                      else if s = ''2000000'' then Inr 2000000
                      else Inl ValueError),
      strptime = (\<lambda>s. if s = ''2022032803'' then Inr (datetime_ymdhms 2022 3 28 3 0 0)
                        else Inl ValueError)\<rparr>"


definition sample_window :: datetime where
  "sample_window = datetime_ymdhms 2022 3 28 0 0 0"

definition bkg_pattern :: string where
  "bkg_pattern = ''/bkg/*gdas.t*.ocnf00[4-9]*''"

text \<open>A sample environment with every variable the script reads.\<close>

definition sample_environ :: "string \<rightharpoonup> string" where
  "sample_environ =
     [''HOMEgfs'' \<mapsto> ''/gfs'', ''COMOUT'' \<mapsto> ''/com'', ''COMIN_OBS'' \<mapsto> ''/obs'',
      ''SOCA_INPUT_FIX_DIR'' \<mapsto> ''/fix'', ''COMIN_GES'' \<mapsto> ''/bkg'',
      ''SOCA_VARS'' \<mapsto> ''tocn,socn,ssh'', ''assim_freq'' \<mapsto> ''6'',
      ''CDATE'' \<mapsto> ''2022032803'', ''PDY'' \<mapsto> ''20220328'', ''cyc'' \<mapsto> ''03'',
      ''SOCA_NINNER'' \<mapsto> ''50'', ''DOMAIN_STACK_SIZE'' \<mapsto> ''2000000'']"

definition sample_world :: world where
  "sample_world = \<lparr>environ = sample_environ, trace = []\<rparr>"

text \<open>The same with three of the variables unset.\<close>

definition bare_world :: world where
  "bare_world =
     \<lparr>environ = sample_environ(''COMIN_OBS'' := None, ''SOCA_INPUT_FIX_DIR'' := None,
                                 ''SOCA_NINNER'' := None),
      trace = []\<rparr>"

definition empty_world :: world where
  "empty_world = \<lparr>environ = Map.empty, trace = []\<rparr>"

section \<open>Lemmas about \<^verbatim>\<open>gen_bkg_list\<close>\<close>

lemma add_trace_Nil: "add_trace [] w = w"
  by (simp add: add_trace_def)

lemma add_trace_add_trace: "add_trace es (add_trace ds w) = add_trace (ds @ es) w"
  by (simp add: add_trace_def)

lemma emit_add_trace: "emit e w = add_trace [e] w"
  by (simp add: emit_def add_trace_def)

lemma run_jobs_ok:
  "stdout_decodes x \<Longrightarrow> run_jobs x cs w = Inr (add_trace (job_events cs) w)"
proof (induction cs arbitrary: w)
  case Nil
  show ?case by (simp add: job_events_def add_trace_Nil)
next
  case (Cons c cs)
  from Cons.prems have "decode_utf8 (stdout (subprocess_run x u c)) = Inr ()" for u
    by (simp add: stdout_decodes_def decode_utf8_def)
  then show ?case
    using Cons.IH [OF Cons.prems]
    by (simp add: Let_def emit_add_trace add_trace_add_trace job_events_def)
qed

lemma fix_att_loop_ok:
  "stdout_decodes x \<Longrightarrow>
   fix_att_loop x v atts files w = Inr (add_trace (concat (map (att_events v files) atts)) w)"
proof (induction atts arbitrary: w)
  case Nil
  show ?case by (simp add: add_trace_Nil)
next
  case (Cons att atts)
  show ?case
    using Cons.IH [OF Cons.prems]
    by (simp add: Let_def run_jobs_ok [OF Cons.prems] add_trace_add_trace att_events_def)
qed

lemma fix_var_loop_ok:
  "stdout_decodes x \<Longrightarrow>
   fix_var_loop x vs files w =
     Inr (add_trace (concat (map (\<lambda>v. concat (map (att_events v files) [''_FillValue'', ''missing_value''])) vs)) w)"
proof (induction vs arbitrary: w)
  case Nil
  show ?case by (simp add: add_trace_Nil)
next
  case (Cons v vs)
  show ?case
    using Cons.IH [OF Cons.prems]
    by (simp add: fix_att_loop_ok [OF Cons.prems] add_trace_add_trace del: fix_att_loop.simps)
qed

lemma bkg_records_Cons:
  "bkg_records bp d (f # fs) = bkg_dict bp d f # bkg_records bp (plus_hours d 1) fs"
proof -
  have "plus_hours (plus_hours d 1) i = plus_hours d (Suc i)" for i
    by (simp add: plus_hours_def algebra_simps)
  moreover have "plus_hours d 0 = d"
    by (simp add: plus_hours_def)
  ultimately show ?thesis
    by (simp add: bkg_records_def map_upt_Suc del: upt_Suc)
qed

lemma bkg_loop_ok:
  "datetime_ok d \<Longrightarrow> datetime_ok (plus_hours d (length files)) \<Longrightarrow>
   bkg_loop bp files d acc = Inr (acc @ bkg_records bp d files)"
proof (induction files arbitrary: d acc)
  case Nil
  show ?case by (simp add: bkg_records_def)
next
  case (Cons f fs)
  obtain t where d: "d = Datetime t" by (cases d)
  from Cons.prems have r: "0 \<le> t" "t + (1 + int (length fs)) * 3600000000 < MAXORDINAL * us_per_day"
    by (simp_all add: d datetime_ok_def plus_hours_def)
  then have a: "dt_add d (hours 1) = Inr (plus_hours d 1)"
    by (simp add: d hours_def plus_hours_def)
  have ok1: "datetime_ok (plus_hours d 1)"
    using r by (simp add: d datetime_ok_def plus_hours_def)
  have ok2: "datetime_ok (plus_hours (plus_hours d 1) (length fs))"
    using r by (simp add: d datetime_ok_def plus_hours_def algebra_simps)
  show ?case
    using Cons.IH [OF ok1 ok2] by (simp add: a bkg_records_Cons)
qed

lemma bkg_loop_Inr:
  "bkg_loop bp files d acc = Inr rs \<Longrightarrow> datetime_ok d \<Longrightarrow> rs = acc @ bkg_records bp d files"
proof (induction files arbitrary: d acc)
  case Nil
  then show ?case by (simp add: bkg_records_def)
next
  case (Cons f fs)
  obtain t where d: "d = Datetime t" by (cases d)
  from Cons.prems(1) have a: "dt_add d (hours 1) = Inr (plus_hours d 1)"
    by (auto simp: d hours_def plus_hours_def split: if_splits)
  then have ok1: "datetime_ok (plus_hours d 1)"
    by (auto simp: d hours_def plus_hours_def datetime_ok_def split: if_splits)
  from Cons.prems(1) have "bkg_loop bp fs (plus_hours d 1) (acc @ [bkg_dict bp d f]) = Inr rs"
    by (simp add: a)
  from Cons.IH [OF this ok1] show ?case
    by (simp add: bkg_records_Cons)
qed

lemma dt_add_hour:
  "datetime_ok (plus_hours d (Suc 0)) \<Longrightarrow> dt_add d (hours 1) = Inr (plus_hours d (Suc 0))"
  by (cases d) (simp add: datetime_ok_def plus_hours_def hours_def)

lemma dt_add_hour_Inr:
  "dt_add d (hours 1) = Inr d' \<Longrightarrow> d' = plus_hours d (Suc 0) \<and> datetime_ok (plus_hours d (Suc 0))"
  by (cases d) (auto simp: datetime_ok_def plus_hours_def hours_def split: if_splits)

lemma plus_hours_plus_hours: "plus_hours (plus_hours d a) b = plus_hours d (a + b)"
  by (simp add: plus_hours_def algebra_simps)

lemma gen_bkg_list_unfold:
  "gen_bkg_list x (PyDatetime wb) (Some bp) ft yn w =
     (case fix_var_loop x [''Temp'', ''Salt'', ''ave_ssh'', ''h'', ''MLD'']
             (sort (glob_glob x w (bp @ ''/*'' @ ft @ ''*''))) w of
        Inl e \<Rightarrow> Inl e
      | Inr w1 \<Rightarrow>
          (case dt_add wb (hours 1) of
             Inl e \<Rightarrow> Inl (e, w1)
           | Inr bkg_date \<Rightarrow>
               (case bkg_loop bp (sort (glob_glob x w (bp @ ''/*'' @ ft @ ''*''))) bkg_date [] of
                  Inl e \<Rightarrow> Inl (e, w1)
                | Inr bkg_list \<Rightarrow>
                    Inr (emit (YamlDump yn (YMap [(''states'', YSeq bkg_list)])) w1))))"
  unfolding gen_bkg_list_def by (simp only: option.case pyval.case Let_def)

lemma gen_bkg_list_ok:
  assumes dec: "stdout_decodes x"
    and ok1: "datetime_ok (plus_hours wb (Suc 0))"
    and okN: "datetime_ok (plus_hours wb (Suc (length (glob_glob x w (bp @ ''/*'' @ ft @ ''*'')))))"
  shows "gen_bkg_list x (PyDatetime wb) (Some bp) ft yn w =
           Inr (add_trace (repair_events (sort (glob_glob x w (bp @ ''/*'' @ ft @ ''*'')))
                  @ [YamlDump yn (manifest bp wb (sort (glob_glob x w (bp @ ''/*'' @ ft @ ''*''))))]) w)"
proof -
  define files where "files = sort (glob_glob x w (bp @ ''/*'' @ ft @ ''*''))"
  have "datetime_ok (plus_hours (plus_hours wb (Suc 0)) (length files))"
    using okN by (simp add: plus_hours_plus_hours files_def)
  from bkg_loop_ok [OF ok1 this]
  have b: "bkg_loop bp files (plus_hours wb (Suc 0)) [] = Inr (bkg_records bp (plus_hours wb (Suc 0)) files)"
    by simp
  have f: "fix_var_loop x [''Temp'', ''Salt'', ''ave_ssh'', ''h'', ''MLD''] files w
             = Inr (add_trace (repair_events files) w)"
    unfolding repair_events_def by (rule fix_var_loop_ok [OF dec])
  show ?thesis
    unfolding gen_bkg_list_unfold files_def [symmetric]
    by (simp only: f b dt_add_hour [OF ok1] sum.case emit_add_trace add_trace_add_trace
          manifest_def One_nat_def)
qed

lemma gen_bkg_list_Inr:
  assumes "gen_bkg_list x window_begin bkg_path ft yn w = Inr w'"
  shows "\<exists>wb bp w1. window_begin = PyDatetime wb \<and> bkg_path = Some bp
           \<and> datetime_ok (plus_hours wb (Suc 0))
           \<and> fix_var_loop x [''Temp'', ''Salt'', ''ave_ssh'', ''h'', ''MLD'']
                (sort (glob_glob x w (bp @ ''/*'' @ ft @ ''*''))) w = Inr w1
           \<and> w' = emit (YamlDump yn (manifest bp wb (sort (glob_glob x w (bp @ ''/*'' @ ft @ ''*''))))) w1"
proof -
  from assms obtain bp where bp: "bkg_path = Some bp"
    by (cases bkg_path) (simp_all add: gen_bkg_list_def)
  from assms bp obtain wb where wb: "window_begin = PyDatetime wb"
    by (cases window_begin) (auto simp: gen_bkg_list_def Let_def simp del: fix_var_loop.simps split: sum.splits)
  define files where "files = sort (glob_glob x w (bp @ ''/*'' @ ft @ ''*''))"
  note g = assms [unfolded bp wb gen_bkg_list_unfold files_def [symmetric]]
  from g obtain w1 where
    w1: "fix_var_loop x [''Temp'', ''Salt'', ''ave_ssh'', ''h'', ''MLD''] files w = Inr w1"
    by (cases "fix_var_loop x [''Temp'', ''Salt'', ''ave_ssh'', ''h'', ''MLD''] files w")
       (simp_all only: sum.case sum.distinct)
  from g w1 obtain d where d: "dt_add wb (hours 1) = Inr d"
    by (cases "dt_add wb (hours 1)") (simp_all only: sum.case sum.distinct)
  from dt_add_hour_Inr [OF d] have d': "d = plus_hours wb (Suc 0)" "datetime_ok (plus_hours wb (Suc 0))"
    by simp_all
  from g w1 d obtain rs where rs: "bkg_loop bp files d [] = Inr rs"
    by (cases "bkg_loop bp files d []") (simp_all only: sum.case sum.distinct)
  from bkg_loop_Inr [OF rs] d' have "rs = bkg_records bp (plus_hours wb (Suc 0)) files"
    by simp
  with g w1 d rs have "w' = emit (YamlDump yn (manifest bp wb files)) w1"
    by (simp only: sum.case sum.inject manifest_def One_nat_def)
  with bp wb w1 d' show ?thesis unfolding files_def by blast
qed

lemma run_jobs_Inr:
  "run_jobs x cs w = Inr w' \<Longrightarrow> w' = add_trace (job_events cs) w"
proof (induction cs arbitrary: w)
  case Nil
  then show ?case by (simp add: job_events_def add_trace_Nil)
next
  case (Cons c cs)
  let ?w3 = "emit (SubprocessRun c) (emit (OsSystem c) (emit (LoggingInfo c) w))"
  from Cons.prems have "run_jobs x cs ?w3 = Inr w'"
    by (simp add: Let_def split: sum.splits)
  from Cons.IH [OF this] show ?case
    by (simp add: emit_add_trace add_trace_add_trace job_events_def)
qed

lemma fix_att_loop_Inr:
  "fix_att_loop x v atts files w = Inr w' \<Longrightarrow>
   w' = add_trace (concat (map (att_events v files) atts)) w"
proof (induction atts arbitrary: w)
  case Nil
  then show ?case by (simp add: add_trace_Nil)
next
  case (Cons att atts)
  from Cons.prems obtain w1 w2 where
    1: "run_jobs x (map (fix_diag_ch_job att v) files) w = Inr w1" and
    2: "run_jobs x (map (fix_diag_d_job att v) files) w1 = Inr w2" and
    3: "fix_att_loop x v atts files w2 = Inr w'"
    by (auto simp: Let_def split: sum.splits)
  from run_jobs_Inr [OF 1] run_jobs_Inr [OF 2] Cons.IH [OF 3] show ?case
    by (simp add: add_trace_add_trace att_events_def)
qed

lemma fix_var_loop_Inr:
  "fix_var_loop x vs files w = Inr w' \<Longrightarrow>
   w' = add_trace (concat (map (\<lambda>v. concat (map (att_events v files) [''_FillValue'', ''missing_value''])) vs)) w"
proof (induction vs arbitrary: w)
  case Nil
  then show ?case by (simp add: add_trace_Nil)
next
  case (Cons v vs)
  from Cons.prems obtain w1 where
    1: "fix_att_loop x v [''_FillValue'', ''missing_value''] files w = Inr w1" and
    2: "fix_var_loop x vs files w1 = Inr w'"
    by (auto simp del: fix_att_loop.simps split: sum.splits)
  from fix_att_loop_Inr [OF 1] Cons.IH [OF 2] show ?case
    by (simp add: add_trace_add_trace)
qed

lemma gen_bkg_list_Inr_trace:
  assumes "gen_bkg_list x window_begin bkg_path ft yn w = Inr w'"
  shows "\<exists>wb bp. window_begin = PyDatetime wb \<and> bkg_path = Some bp
           \<and> datetime_ok (plus_hours wb (Suc 0))
           \<and> w' = add_trace (repair_events (sort (glob_glob x w (bp @ ''/*'' @ ft @ ''*'')))
                     @ [YamlDump yn (manifest bp wb (sort (glob_glob x w (bp @ ''/*'' @ ft @ ''*''))))]) w"
proof -
  from gen_bkg_list_Inr [OF assms] obtain wb bp w1 where
    a: "window_begin = PyDatetime wb" "bkg_path = Some bp" "datetime_ok (plus_hours wb (Suc 0))"
    and f: "fix_var_loop x [''Temp'', ''Salt'', ''ave_ssh'', ''h'', ''MLD'']
                (sort (glob_glob x w (bp @ ''/*'' @ ft @ ''*''))) w = Inr w1"
    and w': "w' = emit (YamlDump yn (manifest bp wb (sort (glob_glob x w (bp @ ''/*'' @ ft @ ''*''))))) w1"
    by blast
  from fix_var_loop_Inr [OF f] have "w1 = add_trace (repair_events (sort (glob_glob x w (bp @ ''/*'' @ ft @ ''*'')))) w"
    unfolding repair_events_def .
  with w' have "w' = add_trace (repair_events (sort (glob_glob x w (bp @ ''/*'' @ ft @ ''*'')))
                     @ [YamlDump yn (manifest bp wb (sort (glob_glob x w (bp @ ''/*'' @ ft @ ''*''))))]) w"
    by (simp only: emit_add_trace add_trace_add_trace)
  with a show ?thesis by blast
qed

lemma takeWhile_neq_all: "c \<notin> set xs \<Longrightarrow> takeWhile (\<lambda>a. a \<noteq> c) xs = xs"
  by (induction xs) auto

lemma takeWhile_neq_append: "c \<notin> set xs \<Longrightarrow> takeWhile (\<lambda>a. a \<noteq> c) (xs @ c # ys) = xs"
  by (induction xs) auto

lemma basename_append:
  "CHR ''/'' \<notin> set name \<Longrightarrow> basename (dir @ ''/'' @ name) = name"
  by (simp add: basename_def takeWhile_neq_append)

lemma basename_plain:
  "CHR ''/'' \<notin> set name \<Longrightarrow> basename name = name"
  by (simp add: basename_def takeWhile_neq_all)

lemma splitext_stem:
  assumes "CHR ''/'' \<notin> set stem" "CHR ''/'' \<notin> set e" "CHR ''.'' \<notin> set e"
    and "\<exists>c \<in> set stem. c \<noteq> CHR ''.''"
  shows "splitext (stem @ ''.'' @ e) = (stem, ''.'' @ e)"
proof -
  have n: "CHR ''/'' \<notin> set (stem @ ''.'' @ e)" using assms by simp
  have t: "takeWhile (\<lambda>c. c \<noteq> CHR ''.'') (rev (stem @ ''.'' @ e)) = rev e"
    using assms(3) by (simp add: takeWhile_neq_append)
  show ?thesis
    using assms(4) unfolding splitext_def basename_plain [OF n] Let_def t
    by simp
qed

lemma splitext_nodot:
  "CHR ''.'' \<notin> set (basename p) \<Longrightarrow> splitext p = (p, [])"
  by (simp add: splitext_def Let_def)

lemma ocn_filename_of_ext:
  assumes "CHR ''/'' \<notin> set stem" "CHR ''/'' \<notin> set e" "CHR ''.'' \<notin> set e"
    and "\<exists>c \<in> set stem. c \<noteq> CHR ''.''"
  shows "ocn_filename_of (dir @ ''/'' @ stem @ ''.'' @ e) = stem @ ''.nc''"
proof -
  have n: "CHR ''/'' \<notin> set (stem @ ''.'' @ e)" using assms by simp
  show ?thesis
    unfolding ocn_filename_of_def basename_append [OF n] splitext_stem [OF assms] by simp
qed

lemma less_append_same: "(p @ a < p @ (b::string)) = (a < b)"
  by (induction p) simp_all




lemma quiet_ext_sel:
  "glob_glob (quiet_ext pat fs) w p = (if p = pat then fs else [])"
  "subprocess_run (quiet_ext pat fs) w c = \<lparr>returncode = 0, stdout = []\<rparr>"
  "ext_call (quiet_ext pat fs) w e = None"
  by (simp_all add: quiet_ext_def)

lemma quiet_ext_decodes: "stdout_decodes (quiet_ext pat fs)"
  by (simp add: stdout_decodes_def quiet_ext_sel)

lemma repair_events_Nil: "repair_events [] = []"
  by (simp add: repair_events_def att_events_def job_events_def)



lemma bkg_records_length: "length (bkg_records bp d files) = length files"
  by (simp add: bkg_records_def)

lemma bkg_records_nth:
  "i < length files \<Longrightarrow> bkg_records bp d files ! i = bkg_dict bp (plus_hours d i) (files ! i)"
  by (simp add: bkg_records_def)

lemma bkg_dict_fields:
  "yaml_field ''date'' (bkg_dict bp d f) = Some (YStr (strftime_iso d))"
  "yaml_field ''basename'' (bkg_dict bp d f) = Some (YStr (bp @ ''/''))"
  "yaml_field ''ocn_filename'' (bkg_dict bp d f) = Some (YStr (ocn_filename_of f))"
  "yaml_field ''read_from_file'' (bkg_dict bp d f) = Some (YInt 1)"
  by (simp_all add: bkg_dict_def)

lemma trace_add_trace: "trace (add_trace es w) = trace w @ es"
  by (simp add: add_trace_def)


lemma datetime_ok_between:
  "datetime_ok d \<Longrightarrow> datetime_ok (plus_hours d n) \<Longrightarrow> k \<le> n \<Longrightarrow> datetime_ok (plus_hours d k)"
proof -
  assume a: "datetime_ok d" "datetime_ok (plus_hours d n)" "k \<le> n"
  have "int k * 3600000000 \<le> int n * 3600000000" using a(3) by simp
  with a(1,2) show ?thesis
    by (simp add: datetime_ok_def plus_hours_def)
qed

lemma gen_bkg_list_last:
  assumes "gen_bkg_list x (PyDatetime T) (Some bp) ft yn w = Inr w'"
  shows "last (trace w') = YamlDump yn
           (YMap [(''states'', YSeq (bkg_records bp (plus_hours T 1) (sort (matched x w bp ft))))])"
proof -
  from gen_bkg_list_Inr_trace [OF assms]
  have "w' = add_trace (repair_events (sort (matched x w bp ft))
              @ [YamlDump yn (manifest bp T (sort (matched x w bp ft)))]) w"
    unfolding matched_def by auto
  then show ?thesis
    by (simp add: trace_add_trace manifest_def)
qed

lemma gen_bkg_list_returns:
  assumes "stdout_decodes x" "datetime_ok T"
    and "datetime_ok (plus_hours T (length (matched x w bp ft) + 1))"
  shows "gen_bkg_list x (PyDatetime T) (Some bp) ft yn w =
           Inr (add_trace (repair_events (sort (matched x w bp ft))
                  @ [YamlDump yn (manifest bp T (sort (matched x w bp ft)))]) w)"
proof -
  have 1: "datetime_ok (plus_hours T (Suc 0))"
    by (rule datetime_ok_between [OF assms(2,3)]) simp
  have 2: "datetime_ok (plus_hours T (Suc (length (glob_glob x w (bp @ ''/*'' @ ft @ ''*'')))))"
    using assms(3) by (simp add: matched_def)
  show ?thesis
    unfolding matched_def by (rule gen_bkg_list_ok [OF assms(1) 1 2])
qed

text \<open>Evaluation of the sample: three files found out of order, window start 2022-03-28T00:00:00.\<close>

lemma sample_matched:
  "matched (quiet_ext bkg_pattern fs) w ''/bkg'' ''gdas.t*.ocnf00[4-9]'' = fs"
  by (simp add: matched_def quiet_ext_sel bkg_pattern_def)


lemma sample_window_micros: "sample_window = Datetime 63784022400000000"
  by (simp add: sample_window_def datetime_ymdhms_def ymd2ord_def days_before_year_def
      days_before_month_def DAYS_BEFORE_MONTH_def is_leap_def)

lemma sample_window_ok:
  "datetime_ok sample_window"
  "k \<le> 1000 \<Longrightarrow> datetime_ok (plus_hours sample_window k)"
  by (simp_all add: sample_window_micros datetime_ok_def plus_hours_def MAXORDINAL_def us_per_day_def)




section \<open>The claims\<close>









lemma ocn_filename_of_noext:
  assumes "CHR ''/'' \<notin> set name" "CHR ''.'' \<notin> set name"
  shows "ocn_filename_of (dir @ ''/'' @ name) = name @ ''.nc''"
proof -
  have "splitext name = (name, [])"
    by (rule splitext_nodot) (simp add: basename_plain [OF assms(1)] assms(2))
  then show ?thesis
    unfolding ocn_filename_of_def basename_append [OF assms(1)] by simp
qed




text \<open>
  Claim C4.  In the manifest \<^verbatim>\<open>gen_bkg_list\<close> writes, the \<^verbatim>\<open>ocn_filename\<close> of
  the record of a file is the base name of the file with its extension replaced by
  \<^verbatim>\<open>.nc\<close>: for a base name \<open>stem.e\<close> (the stem not made of dots only, no dot in
  \<open>e\<close>) it is \<open>stem.nc\<close> whatever \<open>e\<close> is, and for a base name without a dot it
  is the base name followed by \<^verbatim>\<open>.nc\<close>.
\<close>

theorem ocn_filename_extension_replaced:
  assumes "gen_bkg_list x (PyDatetime T) (Some bp) ft yn w = Inr w'"
    and "i < length (matched x w bp ft)"
  shows "\<exists>recs. last (trace w') = YamlDump yn (YMap [(''states'', YSeq recs)])
     \<and> length recs = length (matched x w bp ft)
     \<and> (\<forall>dir stem e.
           sort (matched x w bp ft) ! i = dir @ ''/'' @ stem @ ''.'' @ e
         \<and> CHR ''/'' \<notin> set stem \<and> CHR ''/'' \<notin> set e \<and> CHR ''.'' \<notin> set e
         \<and> (\<exists>c \<in> set stem. c \<noteq> CHR ''.'') \<longrightarrow>
           yaml_field ''ocn_filename'' (recs ! i) = Some (YStr (stem @ ''.nc'')))
     \<and> (\<forall>dir name.
           sort (matched x w bp ft) ! i = dir @ ''/'' @ name
         \<and> CHR ''/'' \<notin> set name \<and> CHR ''.'' \<notin> set name \<longrightarrow>
           yaml_field ''ocn_filename'' (recs ! i) = Some (YStr (name @ ''.nc'')))"
proof -
  let ?files = "sort (matched x w bp ft)"
  let ?recs = "bkg_records bp (plus_hours T 1) ?files"
  have l: "last (trace w') = YamlDump yn (YMap [(''states'', YSeq ?recs)])"
    by (rule gen_bkg_list_last [OF assms(1)])
  have f: "yaml_field ''ocn_filename'' (?recs ! i) = Some (YStr (ocn_filename_of (?files ! i)))"
    using assms(2) by (simp add: bkg_records_nth bkg_dict_fields)
  have a: "\<forall>dir stem e.
           ?files ! i = dir @ ''/'' @ stem @ ''.'' @ e
         \<and> CHR ''/'' \<notin> set stem \<and> CHR ''/'' \<notin> set e \<and> CHR ''.'' \<notin> set e
         \<and> (\<exists>c \<in> set stem. c \<noteq> CHR ''.'') \<longrightarrow>
           yaml_field ''ocn_filename'' (?recs ! i) = Some (YStr (stem @ ''.nc''))"
    unfolding f using ocn_filename_of_ext by auto
  have b: "\<forall>dir name.
           ?files ! i = dir @ ''/'' @ name
         \<and> CHR ''/'' \<notin> set name \<and> CHR ''.'' \<notin> set name \<longrightarrow>
           yaml_field ''ocn_filename'' (?recs ! i) = Some (YStr (name @ ''.nc''))"
    unfolding f using ocn_filename_of_noext by auto
  have n: "length ?recs = length (matched x w bp ft)"
    by (simp add: bkg_records_length)
  from l n a b show ?thesis by blast
qed

text \<open>Claim C4 at a file whose extension is not \<^verbatim>\<open>.nc\<close>.\<close>

theorem ocn_filename_extension_replaced_witness:
  "\<exists>w' recs.
      gen_bkg_list (quiet_ext bkg_pattern [''/bkg/gdas.t00z.ocnf004.grb'']) (PyDatetime sample_window)
        (Some ''/bkg'') ''gdas.t*.ocnf00[4-9]'' ''bkg_list.yaml'' empty_world = Inr w'
    \<and> 0 < length (matched (quiet_ext bkg_pattern [''/bkg/gdas.t00z.ocnf004.grb'']) empty_world
                     ''/bkg'' ''gdas.t*.ocnf00[4-9]'')
    \<and> sort (matched (quiet_ext bkg_pattern [''/bkg/gdas.t00z.ocnf004.grb'']) empty_world
               ''/bkg'' ''gdas.t*.ocnf00[4-9]'') ! 0
        = ''/bkg'' @ ''/'' @ ''gdas.t00z.ocnf004'' @ ''.'' @ ''grb''
    \<and> last (trace w') = YamlDump ''bkg_list.yaml'' (YMap [(''states'', YSeq recs)])
    \<and> yaml_field ''ocn_filename'' (recs ! 0) = Some (YStr (''gdas.t00z.ocnf004'' @ ''.nc''))"
proof -
  let ?x = "quiet_ext bkg_pattern [''/bkg/gdas.t00z.ocnf004.grb'']"
  have m: "matched ?x empty_world ''/bkg'' ''gdas.t*.ocnf00[4-9]'' = [''/bkg/gdas.t00z.ocnf004.grb'']"
    by (rule sample_matched)
  have ok: "datetime_ok (plus_hours sample_window
              (length (matched ?x empty_world ''/bkg'' ''gdas.t*.ocnf00[4-9]'') + 1))"
    by (rule sample_window_ok) (simp add: m)
  from gen_bkg_list_returns [OF quiet_ext_decodes sample_window_ok(1) ok]
  obtain w' where
    r: "gen_bkg_list ?x (PyDatetime sample_window) (Some ''/bkg'') ''gdas.t*.ocnf00[4-9]''
          ''bkg_list.yaml'' empty_world = Inr w'"
    by blast
  have i: "0 < length (matched ?x empty_world ''/bkg'' ''gdas.t*.ocnf00[4-9]'')"
    by (simp add: m)
  have f: "sort (matched ?x empty_world ''/bkg'' ''gdas.t*.ocnf00[4-9]'') ! 0
        = ''/bkg'' @ ''/'' @ ''gdas.t00z.ocnf004'' @ ''.'' @ ''grb''"
    by (simp add: m)
  have c: "CHR ''/'' \<notin> set ''gdas.t00z.ocnf004'' \<and> CHR ''/'' \<notin> set ''grb''
      \<and> CHR ''.'' \<notin> set ''grb'' \<and> (\<exists>c \<in> set ''gdas.t00z.ocnf004''. c \<noteq> CHR ''.'')"
    by simp
  from ocn_filename_extension_replaced [OF r i] obtain recs where
    big: "last (trace w') = YamlDump ''bkg_list.yaml'' (YMap [(''states'', YSeq recs)])
     \<and> length recs = length (matched ?x empty_world ''/bkg'' ''gdas.t*.ocnf00[4-9]'')
     \<and> (\<forall>dir stem e.
           sort (matched ?x empty_world ''/bkg'' ''gdas.t*.ocnf00[4-9]'') ! 0 = dir @ ''/'' @ stem @ ''.'' @ e
         \<and> CHR ''/'' \<notin> set stem \<and> CHR ''/'' \<notin> set e \<and> CHR ''.'' \<notin> set e
         \<and> (\<exists>c \<in> set stem. c \<noteq> CHR ''.'') \<longrightarrow>
           yaml_field ''ocn_filename'' (recs ! 0) = Some (YStr (stem @ ''.nc'')))
     \<and> (\<forall>dir name.
           sort (matched ?x empty_world ''/bkg'' ''gdas.t*.ocnf00[4-9]'') ! 0 = dir @ ''/'' @ name
         \<and> CHR ''/'' \<notin> set name \<and> CHR ''.'' \<notin> set name \<longrightarrow>
           yaml_field ''ocn_filename'' (recs ! 0) = Some (YStr (name @ ''.nc'')))"
    by (rule exE)
  from big have l: "last (trace w') = YamlDump ''bkg_list.yaml'' (YMap [(''states'', YSeq recs)])"
    by (rule conjunct1)
  from big have a: "\<forall>dir stem e.
           sort (matched ?x empty_world ''/bkg'' ''gdas.t*.ocnf00[4-9]'') ! 0 = dir @ ''/'' @ stem @ ''.'' @ e
         \<and> CHR ''/'' \<notin> set stem \<and> CHR ''/'' \<notin> set e \<and> CHR ''.'' \<notin> set e
         \<and> (\<exists>c \<in> set stem. c \<noteq> CHR ''.'') \<longrightarrow>
           yaml_field ''ocn_filename'' (recs ! 0) = Some (YStr (stem @ ''.nc''))"
    by (rule conjunct2 [THEN conjunct2, THEN conjunct1])
  have o: "yaml_field ''ocn_filename'' (recs ! 0) = Some (YStr (''gdas.t00z.ocnf004'' @ ''.nc''))"
    by (rule a [rule_format, of "''/bkg''" "''gdas.t00z.ocnf004''" "''grb''"], rule conjI [OF f c])
  show ?thesis
    by (rule exI [of _ w'], rule exI [of _ recs], intro conjI, rule r, rule i, rule f, rule l, rule o)
qed








lemma run_twice_job_events: "run_twice (job_events cs)"
  by (induction cs) (simp_all add: job_events_def)













end
